theory Spec2Isabelle
  imports Complex_Main
begin

section \<open>Output Formatter: \<open>apply_length_constraints\<close>\<close>

text \<open>
  Strings are lists of characters.  \<open>s.rsplit(c, 1)[0]\<close> is the part of \<open>s\<close> before the
  last occurrence of \<open>c\<close>, and the whole of \<open>s\<close> when \<open>c\<close> does not occur.
\<close>

definition rsplit1_head :: "char \<Rightarrow> string \<Rightarrow> string" where
  "rsplit1_head c s =
     (if c \<in> set s then rev (drop 1 (dropWhile (\<lambda>x. x \<noteq> c) (rev s))) else s)"

text \<open>
  \<^verbatim>\<open>
  def apply_length_constraints(self, content):
      if len(content) < 10:
          return ""
      if len(content) > 280:
          truncated = content[:277]
          if '.' in truncated:
              truncated = truncated.rsplit('.', 1)[0] + '.'
          elif ',' in truncated:
              truncated = truncated.rsplit(',', 1)[0]
          else:
              truncated = truncated + "..."
          return truncated
      return content
  \<close>
\<close>

definition apply_length_constraints :: "string \<Rightarrow> string" where
  "apply_length_constraints content =
     (if length content < 10 then ''''
      else if length content > 280 then
        (let truncated = take 277 content in
         if CHR ''.'' \<in> set truncated then rsplit1_head (CHR ''.'') truncated @ ''.''
         else if CHR '','' \<in> set truncated then rsplit1_head (CHR '','') truncated
         else truncated @ ''...'')
      else content)"

section \<open>Generator Dispatcher: the weighted draw of \<open>generate_tweets\<close> and \<open>generate_tweet_batch\<close>\<close>

text \<open>
  The module-level generator instances are either an object or \<open>None\<close> (set by the
  \<open>try\<close>/\<open>except\<close> around each constructor); the dispatcher only tests their truth
  value, so the registry state is a predicate telling which generators are available.
  The drawn \<open>rand_val\<close> and the threshold literals are read as the rational numbers
  they spell.
\<close>

datatype generator =
  EnhancedEdge | SimpleEdge | UltraEnhanced | Transcendent | SimpleTranscendental | SimpleCsv

text \<open>
  What one pass of the loop body decides: a generator is called and its text tagged with
  a \<open>generator_type\<close>, or a fixed text is used in place of a generator's output.
\<close>

datatype outcome =
  Invoke generator string
| Placeholder string string

fun invoked :: "outcome \<Rightarrow> generator option" where
  "invoked (Invoke g tag) = Some g"
| "invoked (Placeholder txt tag) = None"

text \<open>
  \<open>app.py\<close>, \<open>generate_tweets\<close>: the \<open>if\<close>/\<open>elif\<close> chain tests \<open>rand_val\<close> alone,
  \<^verbatim>\<open>
  if rand_val < 0.2: ...   elif rand_val < 0.4: ...   elif rand_val < 0.6: ...
  elif rand_val < 0.7: ... elif rand_val < 0.8: ...   elif rand_val < 0.9: ...   else: ...
  \<close>
  and each branch tests its generator inside, with a fixed text in the \<open>else\<close>.
\<close>

definition app_branch :: "rat \<Rightarrow> nat" where
  "app_branch rand_val =
     (if rand_val < 0.2 then 0
      else if rand_val < 0.4 then 1
      else if rand_val < 0.6 then 2
      else if rand_val < 0.7 then 3
      else if rand_val < 0.8 then 4
      else if rand_val < 0.9 then 5
      else 6)"

definition app_body :: "(generator \<Rightarrow> bool) \<Rightarrow> nat \<Rightarrow> outcome" where
  "app_body avail b =
     (if b = 0 then
        (if avail EnhancedEdge then Invoke EnhancedEdge ''enhanced_ultimate_edge''
         else Placeholder ''Enhanced edge generator not available'' ''fallback'')
      else if b = 1 then
        (if avail SimpleEdge then Invoke SimpleEdge ''simple_enhanced_edge''
         else Placeholder ''Simple edge generator not available'' ''fallback'')
      else if b = 2 then
        (if avail UltraEnhanced then Invoke UltraEnhanced ''ultra_enhanced''
         else Placeholder ''Ultra enhanced generator not available'' ''fallback'')
      else if b = 3 then
        (if avail Transcendent then Invoke Transcendent ''authentic_transcendent_quotes''
         else Placeholder ''Transcendent generator not available'' ''fallback'')
      else if b = 4 then
        (if avail SimpleTranscendental then Invoke SimpleTranscendental ''simple_transcendental''
         else Placeholder ''Simple transcendental generator not available'' ''fallback'')
      else if b = 5 then
        (if avail SimpleCsv then Invoke SimpleCsv ''simple_csv''
         else Placeholder ''CSV generator not available'' ''fallback'')
      else
        (if avail SimpleCsv then Invoke SimpleCsv ''simple_csv_fallback''
         else Placeholder ''All generators unavailable'' ''system_fallback''))"

definition generate_tweets_draw :: "(generator \<Rightarrow> bool) \<Rightarrow> rat \<Rightarrow> outcome" where
  "generate_tweets_draw avail rand_val = app_body avail (app_branch rand_val)"

text \<open>
  \<open>private_api_server.py\<close>, \<open>generate_tweet_batch\<close>: every test of the chain joins the
  threshold with the generator's truth value,
  \<^verbatim>\<open>
  if rand_val < 0.3 and simple_edge_generator: ...
  elif rand_val < 0.6 and enhanced_edge_generator: ...
  elif rand_val < 0.8 and transcendent_generator: ...
  elif rand_val < 0.9 and simple_transcendental_generator: ...
  else:
      if ultra_enhanced_generator: ...
      else: tweet = "The algorithms have achieved consciousness..."
  \<close>
\<close>

definition generate_tweet_batch_draw :: "(generator \<Rightarrow> bool) \<Rightarrow> rat \<Rightarrow> outcome" where
  "generate_tweet_batch_draw avail rand_val =
     (if rand_val < 0.3 \<and> avail SimpleEdge then Invoke SimpleEdge ''simple_enhanced_edge''
      else if rand_val < 0.6 \<and> avail EnhancedEdge then Invoke EnhancedEdge ''enhanced_ultimate_edge''
      else if rand_val < 0.8 \<and> avail Transcendent then Invoke Transcendent ''transcendent_quote''
      else if rand_val < 0.9 \<and> avail SimpleTranscendental
        then Invoke SimpleTranscendental ''simple_transcendental''
      else if avail UltraEnhanced then Invoke UltraEnhanced ''ultra_enhanced''
      else Placeholder ''The algorithms have achieved consciousness...'' ''fallback'')"

subsection \<open>The dispatcher as the specification words it\<close>

text \<open>
  The specification's walk: go through the cumulative upper bounds in order and take the
  first one that exceeds \<open>r\<close>.  The slice of position \<open>i\<close> starts at the bound before it
  (at 0 for the first).
\<close>

fun select_by_cumulative :: "rat list \<Rightarrow> rat \<Rightarrow> nat option" where
  "select_by_cumulative [] r = None"
| "select_by_cumulative (b # bs) r =
     (if r < b then Some 0 else map_option Suc (select_by_cumulative bs r))"



definition app_generators :: "generator list" where
  "app_generators =
     [EnhancedEdge, SimpleEdge, UltraEnhanced, Transcendent, SimpleTranscendental,
      SimpleCsv, SimpleCsv]"

definition api_bounds :: "rat list" where
  "api_bounds = [0.3, 0.6, 0.8, 0.9, 1.0]"

definition api_generators :: "generator list" where
  "api_generators = [SimpleEdge, EnhancedEdge, Transcendent, SimpleTranscendental, UltraEnhanced]"


definition all_but :: "generator \<Rightarrow> generator \<Rightarrow> bool" where
  "all_but missing g = (g \<noteq> missing)"

section \<open>Content Cleaner: \<open>clean_edge_for_output\<close>\<close>

subsection \<open>Characters\<close>

text \<open>
  A text is the list of its code points, all below 256.  On that range Python's
  \<open>\d\<close> is \<open>0-9\<close>; \<open>\s\<close> and \<open>str.isspace\<close> are the code points 9--13, 28--32, 133
  and 160; \<open>\w\<close> is the alphanumeric code points and the underscore; and under
  \<open>re.IGNORECASE\<close> an ASCII letter of a pattern matches exactly its two cases.
\<close>

definition code :: "char \<Rightarrow> nat" where
  "code c = of_char c"

definition is_digit :: "char \<Rightarrow> bool" where
  "is_digit c = (48 \<le> code c \<and> code c \<le> 57)"

definition is_space :: "char \<Rightarrow> bool" where
  "is_space c =
     ((9 \<le> code c \<and> code c \<le> 13) \<or> (28 \<le> code c \<and> code c \<le> 32) \<or>
      code c = 133 \<or> code c = 160)"

definition is_word :: "char \<Rightarrow> bool" where
  "is_word c =
     ((48 \<le> code c \<and> code c \<le> 57) \<or> (65 \<le> code c \<and> code c \<le> 90) \<or> code c = 95 \<or>
      (97 \<le> code c \<and> code c \<le> 122) \<or> code c = 170 \<or> code c = 178 \<or> code c = 179 \<or>
      code c = 181 \<or> code c = 185 \<or> code c = 186 \<or> (188 \<le> code c \<and> code c \<le> 190) \<or>
      (192 \<le> code c \<and> code c \<le> 214) \<or> (216 \<le> code c \<and> code c \<le> 246) \<or>
      248 \<le> code c)"

definition lower_ascii :: "char \<Rightarrow> char" where
  "lower_ascii c = (if 65 \<le> code c \<and> code c \<le> 90 then char_of (code c + 32) else c)"

fun starts_with_ci :: "string \<Rightarrow> string \<Rightarrow> bool" where
  "starts_with_ci [] text = True"
| "starts_with_ci (p # ps) [] = False"
| "starts_with_ci (p # ps) (c # cs) = (lower_ascii p = lower_ascii c \<and> starts_with_ci ps cs)"

subsection \<open>\<open>re.sub\<close>\<close>

text \<open>
  A pattern is modelled by its matcher: given the character before the current position
  (\<open>None\<close> at the start of the text) and the text from the current position on, the
  matcher returns the length of the match the regular expression engine finds there, or
  \<open>None\<close>.  \<open>re.sub(pattern, repl, text)\<close> scans the text from the left, replaces each
  match by \<open>repl\<close> and goes on behind it; where nothing matches, the character is kept.
  No pattern of the cleaner matches the empty string, and a matcher result of 0 is
  treated as no match.
\<close>

type_synonym matcher = "char option \<Rightarrow> string \<Rightarrow> nat option"

function re_sub :: "matcher \<Rightarrow> string \<Rightarrow> char option \<Rightarrow> string \<Rightarrow> string" where
  "re_sub m repl prev [] = []"
| "re_sub m repl prev (c # cs) =
     (case m prev (c # cs) of
        None \<Rightarrow> c # re_sub m repl (Some c) cs
      | Some n \<Rightarrow>
          if n = 0 then c # re_sub m repl (Some c) cs
          else repl @ re_sub m repl (Some (last (take n (c # cs)))) (drop n (c # cs)))"
  by pat_completeness auto
termination
  by (relation "measure (\<lambda>(m, repl, prev, text). length text)") auto

text \<open>
  \<open>\b\<close> holds between two positions when exactly one of the neighbouring characters
  is a word character (a missing neighbour counts as none); \<open>$\<close> holds at the end of
  the text and before a newline that ends it.
\<close>

definition at_boundary :: "char option \<Rightarrow> string \<Rightarrow> bool" where
  "at_boundary prev rest =
     ((case prev of None \<Rightarrow> False | Some p \<Rightarrow> is_word p) \<noteq>
      (case rest of [] \<Rightarrow> False | c # _ \<Rightarrow> is_word c))"

definition at_end :: "string \<Rightarrow> bool" where
  "at_end rest = (rest = [] \<or> rest = [CHR 0x0A])"

subsection \<open>The patterns of the cleaner\<close>

text \<open>\<^verbatim>\<open><[^>]+>\<close>: a \<open><\<close>, at least one character other than \<open>>\<close>, and the next \<open>>\<close>.\<close>

definition m_tag :: matcher where
  "m_tag prev s =
     (case s of
        [] \<Rightarrow> None
      | c # rest \<Rightarrow>
          if c \<noteq> CHR ''<'' then None
          else let inner = takeWhile (\<lambda>x. x \<noteq> CHR ''>'') rest in
               if inner \<noteq> [] \<and> length inner < length rest then Some (length inner + 2)
               else None)"

text \<open>
  \<^verbatim>\<open>\b\d+\b\<close>: the greedy run of digits is the only candidate, since after a shorter
  run a digit follows a digit and \<open>\b\<close> fails.
\<close>

definition m_number :: matcher where
  "m_number prev s =
     (let ds = takeWhile is_digit s in
      if ds \<noteq> [] \<and> at_boundary prev s \<and> at_boundary (Some (last ds)) (drop (length ds) s)
      then Some (length ds) else None)"

text \<open>
  \<^verbatim>\<open>>>?\d+\<close>: a \<open>>\<close>, a second one if there is one, and a run of digits.  When
  the second \<open>>\<close> is there and no digit follows it, giving it back does not help: the
  digits would have to start at that \<open>>\<close>.
\<close>

definition m_postref :: matcher where
  "m_postref prev s =
     (case s of
        [] \<Rightarrow> None
      | c # rest \<Rightarrow>
          if c \<noteq> CHR ''>'' then None
          else let opt = (case rest of [] \<Rightarrow> 0 | d # _ \<Rightarrow> if d = CHR ''>'' then 1 else 0);
                   ds = takeWhile is_digit (drop opt rest)
               in if ds = [] then None else Some (1 + opt + length ds))"

text \<open>A literal such as \<^verbatim>\<open>/pol/\<close>, and a whole word such as \<^verbatim>\<open>\bOP\b\<close>, both ignoring case.\<close>

definition m_literal_ci :: "string \<Rightarrow> matcher" where
  "m_literal_ci lit prev s = (if starts_with_ci lit s then Some (length lit) else None)"

definition m_word_ci :: "string \<Rightarrow> matcher" where
  "m_word_ci w prev s =
     (if starts_with_ci w s \<and> at_boundary prev s \<and>
         at_boundary (Some (last (take (length w) s))) (drop (length w) s)
      then Some (length w) else None)"

text \<open>\<^verbatim>\<open>>+\<close> and \<^verbatim>\<open>\s+\<close>: greedy runs.\<close>

definition m_gt :: matcher where
  "m_gt prev s =
     (let g = takeWhile (\<lambda>x. x = CHR ''>'') s in if g = [] then None else Some (length g))"

definition m_space :: matcher where
  "m_space prev s =
     (let w = takeWhile is_space s in if w = [] then None else Some (length w))"

text \<open>
  \<^verbatim>\<open>^(kek|based|cringe|cope|seethe)\s*\<close> matches at the start of the text only: the
  first alternative the text starts with, and the white space behind it.
  \<^verbatim>\<open>\s*(kek|based|cringe|cope|seethe)$\<close> matches a run of white space followed by an
  alternative that ends the text; no alternative starts with white space, so the run is
  taken whole.
\<close>

definition artifacts :: "string list" where
  "artifacts = [''kek'', ''based'', ''cringe'', ''cope'', ''seethe'']"

definition m_lead :: matcher where
  "m_lead prev s =
     (if prev \<noteq> None then None
      else case find (\<lambda>a. starts_with_ci a s) artifacts of
             None \<Rightarrow> None
           | Some a \<Rightarrow> Some (length a + length (takeWhile is_space (drop (length a) s))))"

definition m_trail :: matcher where
  "m_trail prev s =
     (let rest = dropWhile is_space s in
      case find (\<lambda>a. starts_with_ci a rest \<and> at_end (drop (length a) rest)) artifacts of
        None \<Rightarrow> None
      | Some a \<Rightarrow> Some (length (takeWhile is_space s) + length a))"

text \<open>The list \<open>board_patterns\<close> of the source, in its order.\<close>

definition board_patterns :: "matcher list" where
  "board_patterns =
     [m_postref] @
     map m_literal_ci
       [''/pol/'', ''/r9k/'', ''/b/'', ''/x/'', ''/fit/'', ''/v/'', ''/tv/'',
        ''/a/'', ''/adv/'', ''/o/'', ''/ck/'', ''/g/'', ''/mu/'', ''/lit/'',
        ''/his/'', ''/sci/''] @
     map m_word_ci [''OP'', ''4chan'', ''thread'', ''board''] @
     [m_gt]"

definition strip :: "string \<Rightarrow> string" where
  "strip s = rev (dropWhile is_space (rev (dropWhile is_space s)))"

text \<open>
  \<open>html.unescape\<close> belongs to the standard library: it returns a text without \<open>&\<close> as it
  is, and otherwise replaces the character references it finds by means of the HTML5
  entity table.  That replacement is a parameter of the model.
\<close>

definition html_unescape :: "(string \<Rightarrow> string) \<Rightarrow> string \<Rightarrow> string" where
  "html_unescape charrefs s = (if CHR ''&'' \<in> set s then charrefs s else s)"

text \<open>
  \<^verbatim>\<open>
  def clean_edge_for_output(self, content):
      if not content:
          return ""
      text = html.unescape(content)
      text = re.sub(r'<[^>]+>', '', text)
      text = re.sub(r'\b\d+\b', '', text)
      board_patterns = [...]
      for pattern in board_patterns:
          text = re.sub(pattern, '', text, flags=re.IGNORECASE)
      text = re.sub(r'\s+', ' ', text)
      text = text.strip()
      text = re.sub(r'^(kek|based|cringe|cope|seethe)\s*', '', text, flags=re.IGNORECASE)
      text = re.sub(r'\s*(kek|based|cringe|cope|seethe)$', '', text, flags=re.IGNORECASE)
      return text
  \<close>
\<close>

definition clean_edge_for_output :: "(string \<Rightarrow> string) \<Rightarrow> string \<Rightarrow> string" where
  "clean_edge_for_output charrefs content =
     (if content = [] then []
      else
        let text = html_unescape charrefs content;
            text = re_sub m_tag [] None text;
            text = re_sub m_number [] None text;
            text = foldl (\<lambda>t m. re_sub m [] None t) text board_patterns;
            text = re_sub m_space '' '' None text;
            text = strip text;
            text = re_sub m_lead [] None text;
            text = re_sub m_trail [] None text
        in text)"


subsection \<open>Texts a second pass leaves alone\<close>






section \<open>Content Store, Category Pool Index and Recency Tracker\<close>

text \<open>
  A row of the dataset, with the columns the generator reads; the dataset is taken to
  have all four, so the defaults of the source for a missing column do not arise.  The
  store \<open>df\<close> is the list of rows; an empty list is the empty data frame the loader
  falls back to.
\<close>

record row =
  content :: string
  category :: string
  quality_score :: rat
  board :: string

text \<open>
  The generator object.  \<open>content_pools\<close> is the dictionary of pools in insertion order.
  \<open>recent_content\<close> is the set of fingerprints, held as the list of its elements in
  iteration order (a new element is put at the end); the claims below depend on its
  size and membership only.  \<open>draws\<close> counts the values taken from the random source,
  and \<open>edge_log\<close> stands for the log file \<open>log_edge_tweet\<close> appends to.
\<close>

record edge_generator =
  df :: "row list"
  content_pools :: "(string \<times> row list) list"
  recent_content :: "string list"
  max_recent :: nat
  draws :: nat
  edge_log :: "(string \<times> string \<times> rat \<times> string) list"

text \<open>
  \<^verbatim>\<open>
  def organize_content_pools(self):
      if self.df.empty:
          return
      categories = ['sexual_edge', 'political_edge', 'dark_humor_edge', 'general_edge']
      for category in categories:
          type_content = self.df[self.df['category'] == category]
          if not type_content.empty:
              self.content_pools[f'{category}_high'] = type_content[type_content[quality_col] >= 8]
              self.content_pools[f'{category}_medium'] = type_content[
                  (type_content[quality_col] >= 6) & (type_content[quality_col] < 8)]
              self.content_pools[f'{category}_good'] = type_content[type_content[quality_col] >= 5]
  \<close>
\<close>

definition categories :: "string list" where
  "categories = [''sexual_edge'', ''political_edge'', ''dark_humor_edge'', ''general_edge'']"

definition pools_of_category :: "row list \<Rightarrow> string \<Rightarrow> (string \<times> row list) list" where
  "pools_of_category d cat =
     (let type_content = filter (\<lambda>r. category r = cat) d in
      if type_content = [] then []
      else [(cat @ ''_high'', filter (\<lambda>r. quality_score r \<ge> 8) type_content),
            (cat @ ''_medium'',
               filter (\<lambda>r. quality_score r \<ge> 6 \<and> quality_score r < 8) type_content),
            (cat @ ''_good'', filter (\<lambda>r. quality_score r \<ge> 5) type_content)])"

definition organize_content_pools :: "row list \<Rightarrow> (string \<times> row list) list" where
  "organize_content_pools d =
     (if d = [] then [] else concat (map (pools_of_category d) categories))"

text \<open>The constructor: the loaded rows, their pools, an empty recency set capped at 100.\<close>

definition init_generator :: "row list \<Rightarrow> edge_generator" where
  "init_generator d =
     \<lparr>df = d, content_pools = organize_content_pools d, recent_content = [],
      max_recent = 100, draws = 0, edge_log = []\<rparr>"

text \<open>
  The fingerprint is the first 12 characters of the MD5 digest in hexadecimal; the digest
  function of the standard library is a parameter.
\<close>

definition get_content_hash :: "(string \<Rightarrow> string) \<Rightarrow> string \<Rightarrow> string" where
  "get_content_hash md5_hex c = take 12 (md5_hex c)"

definition is_content_recent :: "(string \<Rightarrow> string) \<Rightarrow> edge_generator \<Rightarrow> string \<Rightarrow> bool" where
  "is_content_recent md5_hex st c = (get_content_hash md5_hex c \<in> set (recent_content st))"

definition set_add :: "string \<Rightarrow> string list \<Rightarrow> string list" where
  "set_add h xs = (if h \<in> set xs then xs else xs @ [h])"

text \<open>
  The slice \<open>xs[-n:]\<close>: the last \<open>n\<close> elements, all of them when there are fewer, and
  for \<open>n = 0\<close> the whole list, since \<open>-0\<close> is \<open>0\<close>.
\<close>

definition last_slice :: "nat \<Rightarrow> 'a list \<Rightarrow> 'a list" where
  "last_slice n xs = (if n = 0 then xs else drop (length xs - n) xs)"

text \<open>
  \<^verbatim>\<open>
  def track_content_usage(self, content):
      content_hash = self.get_content_hash(content)
      self.recent_content.add(content_hash)
      if len(self.recent_content) > self.max_recent:
          self.recent_content = set(list(self.recent_content)[-self.max_recent:])
  \<close>
\<close>

definition track_content_usage ::
  "(string \<Rightarrow> string) \<Rightarrow> string \<Rightarrow> edge_generator \<Rightarrow> edge_generator" where
  "track_content_usage md5_hex c st =
     (let added = set_add (get_content_hash md5_hex c) (recent_content st) in
      if length added > max_recent st
      then st\<lparr>recent_content := last_slice (max_recent st) added\<rparr>
      else st\<lparr>recent_content := added\<rparr>)"

section \<open>Content dispatch: \<open>get_fresh_edge_content\<close> and \<open>generate_enhanced_edge_tweet\<close>\<close>

text \<open>
  The random source is the sequence \<open>rnd\<close> of the values it hands out, the \<open>k\<close>-th draw
  being \<open>rnd k\<close>.  \<open>pool.sample(n=1).iloc[0]\<close> and \<open>random.choice\<close> pick the element a
  draw points at; they are only called on non-empty collections.
\<close>

definition sample :: "(nat \<Rightarrow> nat) \<Rightarrow> nat \<Rightarrow> 'a list \<Rightarrow> 'a" where
  "sample rnd k xs = xs ! (rnd k mod length xs)"

fun starts_with :: "string \<Rightarrow> string \<Rightarrow> bool" where
  "starts_with [] text = True"
| "starts_with (p # ps) [] = False"
| "starts_with (p # ps) (c # cs) = (p = c \<and> starts_with ps cs)"

text \<open>\<open>needle in text\<close> on strings.\<close>

fun contains_str :: "string \<Rightarrow> string \<Rightarrow> bool" where
  "contains_str needle [] = (needle = [])"
| "contains_str needle (c # cs) = (starts_with needle (c # cs) \<or> contains_str needle cs)"

text \<open>
  \<^verbatim>\<open>
  def select_generation_style(self):
      available_styles = []
      if any('sexual_edge' in pool for pool in self.content_pools.keys()):
          available_styles.extend(['sexual_edge'] * 3)
      if any('political_edge' in pool for pool in self.content_pools.keys()):
          available_styles.extend(['political_edge'] * 2)
      if any('dark_humor_edge' in pool for pool in self.content_pools.keys()):
          available_styles.extend(['dark_humor_edge'] * 3)
      if any('general_edge' in pool for pool in self.content_pools.keys()):
          available_styles.extend(['general_edge'] * 4)
      return random.choice(available_styles) if available_styles else 'general_edge'
  \<close>
\<close>

definition style_weights :: "(string \<times> nat) list" where
  "style_weights =
     [(''sexual_edge'', 3), (''political_edge'', 2), (''dark_humor_edge'', 3),
      (''general_edge'', 4)]"

definition select_generation_style :: "(nat \<Rightarrow> nat) \<Rightarrow> edge_generator \<Rightarrow> string \<times> nat" where
  "select_generation_style rnd st =
     (let available_styles =
            concat (map (\<lambda>(style, w).
                      if list_ex (contains_str style) (map fst (content_pools st))
                      then replicate w style else [])
                    style_weights)
      in if available_styles \<noteq> []
         then (sample rnd (draws st) available_styles, Suc (draws st))
         else (''general_edge'', draws st))"

text \<open>
  \<^verbatim>\<open>
  def get_fresh_edge_content(self, style=None, quality_tier=None, max_attempts=20):
      if style is None:
          style = self.select_generation_style()
      if quality_tier is None:
          quality_tiers = ['high', 'medium', 'good']
      else:
          quality_tiers = [quality_tier]
      for quality in quality_tiers:
          pool_key = f'{style}_{quality}'
          if pool_key in self.content_pools and not self.content_pools[pool_key].empty:
              pool = self.content_pools[pool_key]
              for attempt in range(max_attempts):
                  content_row = pool.sample(n=1).iloc[0]
                  content = content_row['content']
                  if not self.is_content_recent(content):
                      return content_row
      if not self.df.empty:
          return self.df.sample(n=1).iloc[0]
      return None
  \<close>
  The inner loop is \<open>sample_fresh\<close>, the loop over the tiers \<open>search_tiers\<close>; both return
  the row found, if any, and the number of draws used so far.
\<close>

fun sample_fresh ::
  "(string \<Rightarrow> string) \<Rightarrow> (nat \<Rightarrow> nat) \<Rightarrow> edge_generator \<Rightarrow> row list \<Rightarrow> nat \<Rightarrow> nat \<Rightarrow>
   row option \<times> nat" where
  "sample_fresh md5_hex rnd st pool 0 k = (None, k)"
| "sample_fresh md5_hex rnd st pool (Suc attempts) k =
     (let content_row = sample rnd k pool in
      if \<not> is_content_recent md5_hex st (content content_row) then (Some content_row, Suc k)
      else sample_fresh md5_hex rnd st pool attempts (Suc k))"

fun search_tiers ::
  "(string \<Rightarrow> string) \<Rightarrow> (nat \<Rightarrow> nat) \<Rightarrow> edge_generator \<Rightarrow> string \<Rightarrow> nat \<Rightarrow> string list \<Rightarrow> nat \<Rightarrow>
   row option \<times> nat" where
  "search_tiers md5_hex rnd st style max_attempts [] k = (None, k)"
| "search_tiers md5_hex rnd st style max_attempts (quality # rest) k =
     (case map_of (content_pools st) (style @ ''_'' @ quality) of
        None \<Rightarrow> search_tiers md5_hex rnd st style max_attempts rest k
      | Some pool \<Rightarrow>
          if pool = [] then search_tiers md5_hex rnd st style max_attempts rest k
          else (case sample_fresh md5_hex rnd st pool max_attempts k of
                  (Some content_row, k') \<Rightarrow> (Some content_row, k')
                | (None, k') \<Rightarrow> search_tiers md5_hex rnd st style max_attempts rest k'))"

definition get_fresh_edge_content ::
  "(string \<Rightarrow> string) \<Rightarrow> (nat \<Rightarrow> nat) \<Rightarrow> edge_generator \<Rightarrow> string option \<Rightarrow> string option \<Rightarrow>
   nat \<Rightarrow> row option \<times> edge_generator" where
  "get_fresh_edge_content md5_hex rnd st style quality_tier max_attempts =
     (let (style', k0) = (case style of None \<Rightarrow> select_generation_style rnd st
                          | Some s \<Rightarrow> (s, draws st));
          quality_tiers = (case quality_tier of None \<Rightarrow> [''high'', ''medium'', ''good'']
                           | Some q \<Rightarrow> [q])
      in case search_tiers md5_hex rnd st style' max_attempts quality_tiers k0 of
           (Some content_row, k) \<Rightarrow> (Some content_row, st\<lparr>draws := k\<rparr>)
         | (None, k) \<Rightarrow>
             if df st \<noteq> [] then (Some (sample rnd k (df st)), st\<lparr>draws := Suc k\<rparr>)
             else (None, st\<lparr>draws := k\<rparr>))"

definition log_edge_tweet ::
  "string \<Rightarrow> string \<Rightarrow> rat \<Rightarrow> string \<Rightarrow> edge_generator \<Rightarrow> edge_generator" where
  "log_edge_tweet tweet edge_type quality brd st =
     st\<lparr>edge_log := edge_log st @ [(tweet, edge_type, quality, brd)]\<rparr>"

text \<open>
  \<^verbatim>\<open>
  def generate_enhanced_edge_tweet(self, style=None):
      if self.df.empty:
          return "No authentic edge content available"
      content_row = self.get_fresh_edge_content(style)
      if content_row is None:
          return "Unable to generate fresh edge content"
      raw_content = content_row['content']
      ...
      cleaned_content = self.clean_edge_for_output(raw_content)
      if not cleaned_content:
          return self.generate_enhanced_edge_tweet(style)  # Try again
      ...   # the three enhance_* methods return their argument
      final_content = self.apply_length_constraints(enhanced_content)
      if not final_content:
          return self.generate_enhanced_edge_tweet(style)  # Try again
      self.track_content_usage(raw_content)
      self.log_edge_tweet(final_content, edge_type, edge_quality, board)
      return final_content
  \<close>
  The retry is a recursive call, and the interpreter allows a bounded recursion depth:
  past it the call raises \<open>RecursionError\<close>.  \<open>depth\<close> is the number of nested calls
  that still fit.
\<close>

datatype error = RecursionError

fun generate_enhanced_edge_tweet ::
  "(string \<Rightarrow> string) \<Rightarrow> (string \<Rightarrow> string) \<Rightarrow> (nat \<Rightarrow> nat) \<Rightarrow> nat \<Rightarrow> string option \<Rightarrow>
   edge_generator \<Rightarrow> (error + string) \<times> edge_generator" where
  "generate_enhanced_edge_tweet charrefs md5_hex rnd 0 style st = (Inl RecursionError, st)"
| "generate_enhanced_edge_tweet charrefs md5_hex rnd (Suc depth) style st =
     (if df st = [] then (Inr ''No authentic edge content available'', st)
      else
        case get_fresh_edge_content md5_hex rnd st style None 20 of
          (None, st1) \<Rightarrow> (Inr ''Unable to generate fresh edge content'', st1)
        | (Some content_row, st1) \<Rightarrow>
            let raw_content = content content_row;
                cleaned_content = clean_edge_for_output charrefs raw_content
            in if cleaned_content = []
               then generate_enhanced_edge_tweet charrefs md5_hex rnd depth style st1
               else
                 let final_content = apply_length_constraints cleaned_content in
                 if final_content = []
                 then generate_enhanced_edge_tweet charrefs md5_hex rnd depth style st1
                 else (Inr final_content,
                       log_edge_tweet final_content (category content_row)
                         (quality_score content_row) (board content_row)
                         (track_content_usage md5_hex raw_content st1)))"

subsection \<open>Predicates and concrete inputs for the properties\<close>

text \<open>Every pool holds rows of the store, as the pools built by the constructor do.\<close>

definition pools_within :: "edge_generator \<Rightarrow> bool" where
  "pools_within st =
     list_all (\<lambda>(key, pool). list_all (\<lambda>r. r \<in> set (df st)) pool) (content_pools st)"






text \<open>A store whose only row is shorter than the 10 characters the formatter asks for.\<close>

definition short_rows :: "row list" where
  "short_rows =
     [\<lparr>content = ''lol'', category = ''general_edge'', quality_score = 9, board = ''b''\<rparr>]"




section \<open>The Simple Enhanced Edge generator: \<open>generate_tweet\<close>\<close>

text \<open>
  The patterns of \<open>clean_content_for_output\<close> besides \<^verbatim>\<open>\b\d+\b\<close>: \<^verbatim>\<open>\d{6,}\<close>, a
  greedy run of at least six digits; \<^verbatim>\<open>^\d+\<close>, a run of digits at the start of the
  text; \<^verbatim>\<open>\d+$\<close>, a run of digits that ends the text.
\<close>

definition m_digits6 :: matcher where
  "m_digits6 prev s =
     (let ds = takeWhile is_digit s in if length ds \<ge> 6 then Some (length ds) else None)"

definition m_lead_digits :: matcher where
  "m_lead_digits prev s =
     (let ds = takeWhile is_digit s in
      if prev = None \<and> ds \<noteq> [] then Some (length ds) else None)"

definition m_trail_digits :: matcher where
  "m_trail_digits prev s =
     (let ds = takeWhile is_digit s in
      if ds \<noteq> [] \<and> at_end (drop (length ds) s) then Some (length ds) else None)"

text \<open>\<open>text.split()\<close>, with the word being read as accumulator, and \<open>' '.join(words)\<close>.\<close>

fun split_ws :: "string \<Rightarrow> string \<Rightarrow> string list" where
  "split_ws cur [] = (if cur = [] then [] else [cur])"
| "split_ws cur (c # cs) =
     (if is_space c then (if cur = [] then [] else [cur]) @ split_ws [] cs
      else split_ws (cur @ [c]) cs)"

fun join_space :: "string list \<Rightarrow> string" where
  "join_space [] = []"
| "join_space [w] = w"
| "join_space (w # v # ws) = w @ '' '' @ join_space (v # ws)"

text \<open>
  \<^verbatim>\<open>
  def clean_content_for_output(self, content):
      if not content:
          return content
      cleaned = content.replace('>', '').strip()
      cleaned = re.sub(r'\d{6,}', '', cleaned)
      cleaned = re.sub(r'\b\d+\b', '', cleaned)
      cleaned = re.sub(r'^\d+', '', cleaned)
      cleaned = re.sub(r'\d+$', '', cleaned)
      cleaned = ' '.join(cleaned.split())
      if len(cleaned) > 200:
          cleaned = cleaned[:197] + "..."
      return cleaned.strip()
  \<close>
\<close>

definition clean_content_for_output :: "string \<Rightarrow> string" where
  "clean_content_for_output c =
     (if c = [] then c
      else
        let cleaned = strip (filter (\<lambda>x. x \<noteq> CHR ''>'') c);
            cleaned = re_sub m_digits6 [] None cleaned;
            cleaned = re_sub m_number [] None cleaned;
            cleaned = re_sub m_lead_digits [] None cleaned;
            cleaned = re_sub m_trail_digits [] None cleaned;
            cleaned = join_space (split_ws [] cleaned);
            cleaned = (if length cleaned > 200 then take 197 cleaned @ ''...'' else cleaned)
        in strip cleaned)"

subsection \<open>The load-time cleaner \<open>_clean_content\<close>\<close>










text \<open>
  The generator object: the four pools built at load time, of rows with their cleaned
  text and its length, and the two fields the constructor sets up for the recency
  tracking,
  \<^verbatim>\<open>
  self.recent_outputs = set()  # Track recent outputs to prevent repetition
  self.max_recent = 40  # Remember last 40 outputs
  \<close>
\<close>

record simple_row =
  cleaned_content :: string
  content_length :: nat

record simple_generator =
  short_pool :: "simple_row list"
  medium_pool :: "simple_row list"
  priority_short_pool :: "simple_row list"
  priority_medium_pool :: "simple_row list"
  recent_outputs :: "string list"
  max_recent_outputs :: nat

text \<open>
  \<^verbatim>\<open>
  def generate_tweet(self):
      use_priority = random.random() < 0.7
      if use_priority:
          if not self.priority_short_pool.empty:
              selected_row = self.priority_short_pool.sample(n=1).iloc[0]
              raw_content = selected_row['cleaned_content']
              return self.clean_content_for_output(raw_content)
          elif not self.priority_medium_pool.empty:
              ...
      if not self.short_pool.empty:
          ...
      elif not self.medium_pool.empty:
          shorter_medium = self.medium_pool[self.medium_pool['content_length'] <= 150]
          if not shorter_medium.empty:
              ...
      return "Content pool exhausted"
  \<close>
  \<open>rand_val\<close> is the value of \<open>random.random()\<close> and \<open>pick\<close> the draw \<open>sample\<close> uses.
  The model returns the generator object next to the text, as the method leaves it.
\<close>

definition emit :: "nat \<Rightarrow> simple_row list \<Rightarrow> string" where
  "emit pick pool = clean_content_for_output (cleaned_content (pool ! (pick mod length pool)))"

definition generate_tweet :: "rat \<Rightarrow> nat \<Rightarrow> simple_generator \<Rightarrow> string \<times> simple_generator" where
  "generate_tweet rand_val pick self =
     (let use_priority = rand_val < 0.7 in
      if use_priority \<and> priority_short_pool self \<noteq> []
        then (emit pick (priority_short_pool self), self)
      else if use_priority \<and> priority_medium_pool self \<noteq> []
        then (emit pick (priority_medium_pool self), self)
      else if short_pool self \<noteq> []
        then (emit pick (short_pool self), self)
      else if medium_pool self \<noteq> [] \<and>
              filter (\<lambda>r. content_length r \<le> 150) (medium_pool self) \<noteq> []
        then (emit pick (filter (\<lambda>r. content_length r \<le> 150) (medium_pool self)), self)
      else (''Content pool exhausted'', self))"

text \<open>A generator as constructed, with one row in its short pool.\<close>

definition simple_demo :: simple_generator where
  "simple_demo =
     \<lparr>short_pool = [\<lparr>cleaned_content = ''tfw no gf again'', content_length = 15\<rparr>],
      medium_pool = [], priority_short_pool = [], priority_medium_pool = [],
      recent_outputs = [], max_recent_outputs = 40\<rparr>"

section \<open>Properties of the Output Formatter\<close>

lemma length_rsplit1_head_less:
  "c \<in> set s \<Longrightarrow> length (rsplit1_head c s) < length s"
proof -
  assume mem: "c \<in> set s"
  then have "c \<in> set (rev s)" by simp
  then have ne: "dropWhile (\<lambda>x. x \<noteq> c) (rev s) \<noteq> []" by simp
  have "length (dropWhile (\<lambda>x. x \<noteq> c) (rev s)) \<le> length (rev s)"
    by (rule length_dropWhile_le)
  with ne mem show ?thesis
    by (cases "dropWhile (\<lambda>x. x \<noteq> c) (rev s)") (simp_all add: rsplit1_head_def)
qed

text \<open>
  C8.  For every input the formatter returns a string of at most 280 characters: the
  short-input branch returns the empty string, the sentence and clause cuts shorten a
  277-character prefix, the hard cut appends three characters to it, and an input of
  10 to 280 characters is returned as it is.
\<close>

theorem apply_length_constraints_bounded:
  "length (apply_length_constraints txt) \<le> 280"
proof (cases "length txt > 280")
  case False
  then show ?thesis by (simp add: apply_length_constraints_def)
next
  case True
  let ?t = "take 277 txt"
  have len: "length ?t = 277" using True by simp
  show ?thesis
  proof (cases "CHR ''.'' \<in> set ?t")
    case dot: True
    from length_rsplit1_head_less [OF dot] len
    have "length (rsplit1_head (CHR ''.'') ?t) < 277" by simp
    with True dot show ?thesis by (simp add: apply_length_constraints_def Let_def)
  next
    case nodot: False
    show ?thesis
    proof (cases "CHR '','' \<in> set ?t")
      case comma: True
      from length_rsplit1_head_less [OF comma] len
      have "length (rsplit1_head (CHR '','') ?t) < 277" by simp
      with True nodot comma show ?thesis by (simp add: apply_length_constraints_def Let_def)
    next
      case False
      with True nodot show ?thesis by (simp add: apply_length_constraints_def Let_def)
    qed
  qed
qed

text \<open>
  C7 as the specification states it: every text of at most 280 characters is returned
  unchanged.  The five-character text \<open>short\<close> is within the limit and comes back as the
  empty string.
\<close>

theorem apply_length_constraints_unchanged_counterexample:
  "length ''short'' \<le> 280 \<and> apply_length_constraints ''short'' \<noteq> ''short''"
  by (simp add: apply_length_constraints_def)

text \<open>
  C7, amended.  Every text of at least 10 and at most 280 characters is returned
  unchanged.
\<close>

theorem apply_length_constraints_unchanged:
  "10 \<le> length txt \<Longrightarrow> length txt \<le> 280 \<Longrightarrow>
   apply_length_constraints txt = txt"
  by (simp add: apply_length_constraints_def)

theorem apply_length_constraints_unchanged_witness:
  "10 \<le> length ''ten chars!'' \<and> length ''ten chars!'' \<le> 280 \<and>
   apply_length_constraints ''ten chars!'' = ''ten chars!''"
  using apply_length_constraints_unchanged [of "''ten chars!''"] by simp

text \<open>
  C10.  Every input of fewer than 10 characters yields the empty string, although such
  an input is within the 280-character limit.
\<close>

theorem apply_length_constraints_short_empty:
  "length txt < 10 \<Longrightarrow> apply_length_constraints txt = ''''"
  by (simp add: apply_length_constraints_def)

theorem apply_length_constraints_short_empty_witness:
  "length ''too short'' < 10 \<and> apply_length_constraints ''too short'' = ''''"
  using apply_length_constraints_short_empty [of "''too short''"] by simp

section \<open>Properties of the Generator Dispatcher\<close>




lemma app_draw_invoked:
  "invoked (generate_tweets_draw avail r) =
     (if avail (app_generators ! app_branch r) then Some (app_generators ! app_branch r)
      else None)"
  by (simp add: generate_tweets_draw_def app_body_def app_branch_def app_generators_def)


text \<open>
  In \<open>generate_tweet_batch\<close> a draw is served by the first available generator at or
  after the slice the draw falls in.
\<close>

lemma api_draw_fallthrough:
  "r < 1 \<Longrightarrow>
   invoked (generate_tweet_batch_draw avail r) =
     find avail (drop (the (select_by_cumulative api_bounds r)) api_generators)"
  by (simp add: generate_tweet_batch_draw_def api_bounds_def api_generators_def)




text \<open>
  C6 as the specification states it: a draw in the slice of an unavailable generator
  yields a placeholder and the slice is not handed to another generator.  In
  \<open>generate_tweet_batch\<close>, with the Simple Enhanced Edge generator unavailable, the draw
  0.1 of its slice \<open>[0, 0.3)\<close> invokes the Enhanced Ultimate Edge generator.
\<close>

theorem unavailable_slice_counterexample:
  "select_by_cumulative api_bounds 0.1 = Some 0 \<and> api_generators ! 0 = SimpleEdge \<and>
   \<not> all_but SimpleEdge SimpleEdge \<and>
   generate_tweet_batch_draw (all_but SimpleEdge) 0.1 =
     Invoke EnhancedEdge ''enhanced_ultimate_edge''"
  by (simp add: api_bounds_def api_generators_def all_but_def generate_tweet_batch_draw_def)

text \<open>
  C6, amended.  In \<open>generate_tweets\<close> a draw in the slice of an unavailable generator
  invokes no generator (the branch emits its fixed text), and a draw in the slice of an
  available one invokes that generator.  In \<open>generate_tweet_batch\<close> the draw is served by
  the first available generator at or after its slice in branch order, and the fixed
  fallback text is used only when none of them is available.
\<close>

theorem unavailable_slice_policy:
  assumes "r < 1"
  shows "invoked (generate_tweets_draw avail r) =
           (if avail (app_generators ! app_branch r)
            then Some (app_generators ! app_branch r) else None) \<and>
         invoked (generate_tweet_batch_draw avail r) =
           find avail (drop (the (select_by_cumulative api_bounds r)) api_generators)"
  using assms by (simp add: app_draw_invoked api_draw_fallthrough)

theorem unavailable_slice_policy_witness:
  "(0.1::rat) < 1 \<and>
   invoked (generate_tweets_draw (all_but EnhancedEdge) 0.1) = None \<and>
   invoked (generate_tweet_batch_draw (all_but SimpleEdge) 0.1) = Some EnhancedEdge \<and>
   invoked (generate_tweet_batch_draw (all_but UltraEnhanced) 0.95) = None"
proof -
  have h: "(0.1::rat) < 1" and h': "(0.95::rat) < 1" by simp_all
  from unavailable_slice_policy [OF h, of "all_but EnhancedEdge"]
    unavailable_slice_policy [OF h, of "all_but SimpleEdge"]
    unavailable_slice_policy [OF h', of "all_but UltraEnhanced"]
  show ?thesis
    by (simp add: app_branch_def app_generators_def api_bounds_def api_generators_def
          all_but_def)
qed

section \<open>Properties of the Content Cleaner\<close>

subsection \<open>A pattern that matches nowhere\<close>



lemma is_space_blank [simp]: "is_space (CHR '' '')"
  by (simp add: is_space_def code_def)












subsection \<open>The leading and the trailing artifact\<close>














subsection \<open>Concrete runs\<close>

lemmas cleaner_defs =
  clean_edge_for_output_def html_unescape_def m_tag_def m_number_def
  board_patterns_def m_postref_def m_literal_ci_def m_word_ci_def m_gt_def m_space_def
  m_lead_def m_trail_def strip_def artifacts_def at_boundary_def at_end_def is_digit_def
  is_space_def is_word_def lower_ascii_def code_def Let_def

lemma clean_lol: "clean_edge_for_output u ''lol'' = ''lol''"
  by (simp add: cleaner_defs)










section \<open>Properties of the Recency Tracker\<close>

lemma distinct_set_add: "distinct xs \<Longrightarrow> distinct (set_add h xs)"
  by (simp add: set_add_def)

lemma distinct_last_slice: "distinct xs \<Longrightarrow> distinct (last_slice n xs)"
  by (simp add: last_slice_def)

lemma length_last_slice: "0 < n \<Longrightarrow> length (last_slice n xs) \<le> n"
  by (simp add: last_slice_def)

lemma track_max_recent [simp]: "max_recent (track_content_usage h c st) = max_recent st"
  by (simp add: track_content_usage_def Let_def)

lemma track_bounded:
  "0 < max_recent st \<Longrightarrow> length (recent_content (track_content_usage h c st)) \<le> max_recent st"
  by (simp add: track_content_usage_def Let_def length_last_slice)

lemma track_distinct:
  "distinct (recent_content st) \<Longrightarrow> distinct (recent_content (track_content_usage h c st))"
  by (simp add: track_content_usage_def Let_def distinct_set_add distinct_last_slice)

lemma track_all_invariant:
  "0 < max_recent st \<Longrightarrow> distinct (recent_content st) \<Longrightarrow> length (recent_content st) \<le> max_recent st \<Longrightarrow>
   max_recent (foldl (\<lambda>s c. track_content_usage h c s) st cs) = max_recent st \<and>
   distinct (recent_content (foldl (\<lambda>s c. track_content_usage h c s) st cs)) \<and>
   length (recent_content (foldl (\<lambda>s c. track_content_usage h c s) st cs)) \<le> max_recent st"
proof (induction cs arbitrary: st)
  case Nil
  then show ?case by simp
next
  case (Cons c cs)
  have "0 < max_recent (track_content_usage h c st)" using Cons.prems by simp
  moreover have "distinct (recent_content (track_content_usage h c st))"
    using Cons.prems by (simp add: track_distinct)
  moreover have "length (recent_content (track_content_usage h c st)) \<le> max_recent (track_content_usage h c st)"
    using Cons.prems by (simp add: track_bounded)
  ultimately show ?case using Cons.IH [of "track_content_usage h c st"] by simp
qed

text \<open>
  C4.  Starting from the generator as constructed (empty recency set, \<open>max_recent = 100\<close>),
  after any sequence of \<open>track_content_usage\<close> calls the recency set holds at most 100
  fingerprints, each once.  The statement covers every prefix of the sequence, hence the
  state after each call.
\<close>

theorem recency_set_bounded:
  "distinct (recent_content (foldl (\<lambda>s c. track_content_usage md5_hex c s) (init_generator d) cs)) \<and>
   length (recent_content (foldl (\<lambda>s c. track_content_usage md5_hex c s) (init_generator d) cs)) \<le> 100"
  using track_all_invariant [of "init_generator d" md5_hex cs]
  by (simp add: init_generator_def)

section \<open>Properties of \<open>get_fresh_edge_content\<close>\<close>

lemma sample_in: "xs \<noteq> [] \<Longrightarrow> sample rnd k xs \<in> set xs"
  by (simp add: sample_def)

lemma sample_fresh_draws:
  "sample_fresh h rnd st pool n k = (res, k') \<Longrightarrow> k \<le> k' \<and> k' \<le> k + n"
proof (induction n arbitrary: k)
  case 0
  then show ?case by simp
next
  case (Suc n)
  then show ?case by (fastforce simp: Let_def split: if_splits)
qed

lemma sample_fresh_in_pool:
  "pool \<noteq> [] \<Longrightarrow> sample_fresh h rnd st pool n k = (Some r, k') \<Longrightarrow>
   r \<in> set pool \<and> \<not> is_content_recent h st (content r)"
proof (induction n arbitrary: k)
  case 0
  then show ?case by simp
next
  case (Suc n)
  then show ?case by (auto simp: Let_def sample_in split: if_splits)
qed


lemma search_tiers_draws:
  "search_tiers h rnd st style n tiers k = (res, k') \<Longrightarrow> k \<le> k' \<and> k' \<le> k + length tiers * n"
proof (induction tiers arbitrary: k)
  case Nil
  then show ?case by simp
next
  case (Cons q tiers)
  show ?case
  proof (cases "map_of (content_pools st) (style @ ''_'' @ q)")
    case None
    with Cons show ?thesis by fastforce
  next
    case (Some pool)
    show ?thesis
    proof (cases "pool = []")
      case True
      with Some Cons show ?thesis by fastforce
    next
      case False
      obtain r1 k1 where sf: "sample_fresh h rnd st pool n k = (r1, k1)" by force
      from sample_fresh_draws [OF sf] have k1: "k \<le> k1" "k1 \<le> k + n" by simp_all
      show ?thesis
      proof (cases r1)
        case None
        with Some False sf Cons.prems
        have "search_tiers h rnd st style n tiers k1 = (res, k')" by simp
        from Cons.IH [OF this] k1 show ?thesis by simp
      next
        case (Some a)
        with \<open>map_of (content_pools st) (style @ ''_'' @ q) = Some pool\<close> False sf Cons.prems
        have "k' = k1" by simp
        with k1 show ?thesis by simp
      qed
    qed
  qed
qed

lemma search_tiers_in_pools:
  "search_tiers h rnd st style n tiers k = (Some r, k') \<Longrightarrow>
   \<exists>q pool. q \<in> set tiers \<and> map_of (content_pools st) (style @ ''_'' @ q) = Some pool \<and> r \<in> set pool
      \<and> \<not> is_content_recent h st (content r)"
proof (induction tiers arbitrary: k)
  case Nil
  then show ?case by simp
next
  case (Cons q tiers)
  show ?case
  proof (cases "map_of (content_pools st) (style @ ''_'' @ q)")
    case None
    with Cons show ?thesis by fastforce
  next
    case (Some pool)
    show ?thesis
    proof (cases "pool = []")
      case True
      with Some Cons show ?thesis by fastforce
    next
      case False
      obtain r1 k1 where sf: "sample_fresh h rnd st pool n k = (r1, k1)" by force
      show ?thesis
      proof (cases r1)
        case None
        with Some False sf Cons.prems
        have "search_tiers h rnd st style n tiers k1 = (Some r, k')" by simp
        from Cons.IH [OF this] show ?thesis by auto
      next
        case Some': (Some a)
        with Some False sf Cons.prems have "a = r" by simp
        with Some' sf sample_fresh_in_pool [OF False, of h rnd st n k r k1] Some
        show ?thesis by auto
      qed
    qed
  qed
qed

lemma search_tiers_skip:
  "(case map_of (content_pools st) (style @ ''_'' @ q) of None \<Rightarrow> True | Some pool \<Rightarrow> pool = []) \<Longrightarrow>
   search_tiers h rnd st style n (q # tiers) k = search_tiers h rnd st style n tiers k"
  by (simp split: option.splits)


lemma select_style_draws:
  "select_generation_style rnd st = (s, k) \<Longrightarrow> draws st \<le> k \<and> k \<le> Suc (draws st)"
  by (auto simp: select_generation_style_def Let_def split: if_splits)

lemma pools_within_init: "pools_within (init_generator d)"
  by (auto simp: pools_within_def init_generator_def organize_content_pools_def
        pools_of_category_def categories_def list_all_iff Let_def split: if_splits)

lemma pools_within_draws [simp]: "pools_within (st\<lparr>draws := k\<rparr>) = pools_within st"
  by (simp add: pools_within_def)

lemma get_fresh_some:
  assumes "df st \<noteq> []"
  shows "\<exists>row k. get_fresh_edge_content h rnd st style tier n = (Some row, st\<lparr>draws := k\<rparr>) \<and>
           draws st \<le> k \<and> k \<le> draws st + 3 * n + 2 \<and> (pools_within st \<longrightarrow> row \<in> set (df st))"
proof -
  define sk where "sk = (case style of None \<Rightarrow> select_generation_style rnd st | Some s \<Rightarrow> (s, draws st))"
  define tiers where "tiers = (case tier of None \<Rightarrow> [''high'', ''medium'', ''good''] | Some q \<Rightarrow> [q])"
  obtain s k0 where sk: "sk = (s, k0)" by force
  have k0: "draws st \<le> k0" "k0 \<le> Suc (draws st)"
    using sk select_style_draws [of rnd st s k0] by (auto simp: sk_def split: option.splits)
  have lt: "length tiers \<le> 3" by (simp add: tiers_def split: option.splits)
  obtain res k where se: "search_tiers h rnd st s n tiers k0 = (res, k)" by force
  from search_tiers_draws [OF se] have k: "k0 \<le> k" "k \<le> k0 + length tiers * n" by simp_all
  from lt have "length tiers * n \<le> 3 * n" by (rule mult_le_mono1)
  with k k0 have kb: "draws st \<le> k" "k \<le> draws st + 3 * n + 1" by linarith+
  have unfold: "get_fresh_edge_content h rnd st style tier n =
      (case search_tiers h rnd st s n tiers k0 of
         (Some content_row, k) \<Rightarrow> (Some content_row, st\<lparr>draws := k\<rparr>)
       | (None, k) \<Rightarrow> if df st \<noteq> [] then (Some (sample rnd k (df st)), st\<lparr>draws := Suc k\<rparr>)
                     else (None, st\<lparr>draws := k\<rparr>))"
    using sk by (simp add: get_fresh_edge_content_def sk_def [symmetric] tiers_def [symmetric])
  show ?thesis
  proof (cases res)
    case None
    with unfold se assms have "get_fresh_edge_content h rnd st style tier n =
        (Some (sample rnd k (df st)), st\<lparr>draws := Suc k\<rparr>)" by simp
    moreover have "sample rnd k (df st) \<in> set (df st)" using assms by (rule sample_in)
    ultimately show ?thesis using kb by auto
  next
    case (Some r)
    with unfold se have g: "get_fresh_edge_content h rnd st style tier n = (Some r, st\<lparr>draws := k\<rparr>)"
      by simp
    from se Some search_tiers_in_pools [of h rnd st s n tiers k0 r k]
    obtain q pool where "map_of (content_pools st) (s @ ''_'' @ q) = Some pool" "r \<in> set pool"
      by auto
    then have "(s @ ''_'' @ q, pool) \<in> set (content_pools st)" "r \<in> set pool"
      by (auto dest: map_of_SomeD)
    then have "pools_within st \<longrightarrow> r \<in> set (df st)"
      by (auto simp: pools_within_def list_all_iff)
    with g kb show ?thesis by auto
  qed
qed














section \<open>Properties of \<open>generate_enhanced_edge_tweet\<close>\<close>

text \<open>
  When no row of a non-empty store survives cleaning and the length constraints, every
  draw is retried, and the call ends in \<open>RecursionError\<close> whatever depth is allowed.
\<close>

lemma generate_never_returns:
  assumes "df st \<noteq> []" and "pools_within st"
    and "list_all (\<lambda>r. apply_length_constraints (clean_edge_for_output u (content r)) = []) (df st)"
  shows "fst (generate_enhanced_edge_tweet u h rnd depth style st) = Inl RecursionError"
  using assms
proof (induction depth arbitrary: st)
  case 0
  show ?case by simp
next
  case (Suc depth)
  from get_fresh_some [OF Suc.prems(1), of h rnd style None 20] Suc.prems(2)
  obtain row k where g: "get_fresh_edge_content h rnd st style None 20 = (Some row, st\<lparr>draws := k\<rparr>)"
    and row: "row \<in> set (df st)" by blast
  let ?st1 = "st\<lparr>draws := k\<rparr>"
  from row Suc.prems(3) have unusable: "apply_length_constraints (clean_edge_for_output u (content row)) = []"
    by (simp add: list_all_iff)
  have "fst (generate_enhanced_edge_tweet u h rnd depth style ?st1) = Inl RecursionError"
    using Suc.prems by (intro Suc.IH) simp_all
  with g unusable Suc.prems(1) show ?case by (simp add: Let_def)
qed

text \<open>
  C2.  The claim is that every call returns a string and that the retry is bounded.  On
  the store \<open>short_rows\<close>, whose only row has three characters, every draw yields that
  row, the formatter turns it into the empty string and the call is retried: for every
  recursion depth, every random source and every requested style the call raises
  \<open>RecursionError\<close> instead of returning a string.
\<close>

theorem generate_enhanced_edge_tweet_unbounded_retry:
  "fst (generate_enhanced_edge_tweet charrefs md5_hex rnd depth style (init_generator short_rows)) =
     Inl RecursionError"
proof (rule generate_never_returns)
  show "df (init_generator short_rows) \<noteq> []"
    by (simp add: init_generator_def short_rows_def)
  show "pools_within (init_generator short_rows)" by (rule pools_within_init)
  show "list_all (\<lambda>r. apply_length_constraints (clean_edge_for_output charrefs (content r)) = [])
          (df (init_generator short_rows))"
    by (simp add: init_generator_def short_rows_def clean_lol apply_length_constraints_def)
qed

section \<open>Properties of the Simple Enhanced Edge generator\<close>

lemma emit_demo: "clean_content_for_output ''tfw no gf again'' = ''tfw no gf again''"
  by (simp add: clean_content_for_output_def m_digits6_def m_number_def m_lead_digits_def
      m_trail_digits_def strip_def at_boundary_def at_end_def is_digit_def is_space_def is_word_def
      code_def Let_def)

text \<open>
  C9.  The claim is that every successful emission records the fingerprint of the emitted
  snippet.  \<open>generate_tweet\<close> leaves \<open>recent_outputs\<close> as it finds it on every path: the
  generator as constructed emits the text of its pool and its recency set is still empty
  afterwards.
\<close>

theorem generate_tweet_records_nothing:
  "recent_outputs (snd (generate_tweet rand_val pick self)) = recent_outputs self \<and>
   generate_tweet 0.9 0 simple_demo = (''tfw no gf again'', simple_demo) \<and>
   recent_outputs simple_demo = []"
proof -
  have "snd (generate_tweet rand_val pick self) = self"
    by (simp add: generate_tweet_def Let_def)
  moreover have "generate_tweet 0.9 0 simple_demo = (''tfw no gf again'', simple_demo)"
    by (simp add: generate_tweet_def emit_def simple_demo_def emit_demo)
  moreover have "recent_outputs simple_demo = []" by (simp add: simple_demo_def)
  ultimately show ?thesis by simp
qed

end
